theory Spec2Isabelle
  imports Main
begin

section \<open>Python strings and dictionaries\<close>

text \<open>
  Strings are character lists. \<open>join\<close> is \<^verbatim>\<open>sep.join(parts)\<close>, \<open>contains\<close> is
  \<^verbatim>\<open>needle in s\<close>, \<open>lower\<close> is \<^verbatim>\<open>s.lower()\<close> on ASCII letters, and \<open>str_int\<close> is
  \<^verbatim>\<open>str(i)\<close> for an integer.
\<close>

fun join :: "string \<Rightarrow> string list \<Rightarrow> string" where
  "join sep [] = []"
| "join sep [x] = x"
| "join sep (x # y # ys) = x @ sep @ join sep (y # ys)"

fun starts_with :: "string \<Rightarrow> string \<Rightarrow> bool" where
  "starts_with s [] = True"
| "starts_with [] (p # ps) = False"
| "starts_with (c # cs) (p # ps) = (c = p \<and> starts_with cs ps)"

fun contains :: "string \<Rightarrow> string \<Rightarrow> bool" where
  "contains [] needle = (needle = [])"
| "contains (c # cs) needle = (starts_with (c # cs) needle \<or> contains cs needle)"

definition upper_letters :: string where
  "upper_letters = ''ABCDEFGHIJKLMNOPQRSTUVWXYZ''"

definition lower_letters :: string where
  "lower_letters = ''abcdefghijklmnopqrstuvwxyz''"

definition digit_chars :: string where
  "digit_chars = ''0123456789''"

definition lower_char :: "char \<Rightarrow> char" where
  "lower_char c = (case map_of (zip upper_letters lower_letters) c of Some l \<Rightarrow> l | None \<Rightarrow> c)"

definition lower :: "string \<Rightarrow> string" where
  "lower s = map lower_char s"

definition is_digit :: "char \<Rightarrow> bool" where
  "is_digit c = (c \<in> set digit_chars)"

definition digit_char :: "nat \<Rightarrow> char" where
  "digit_char n = digit_chars ! (n mod 10)"

fun str_nat :: "nat \<Rightarrow> string" where
  "str_nat n = (if n < 10 then [digit_char n] else str_nat (n div 10) @ [digit_char n])"

declare str_nat.simps [simp del]

definition str_int :: "int \<Rightarrow> string" where
  "str_int i = (if i < 0 then CHR ''-'' # str_nat (nat (- i)) else str_nat (nat i))"

text \<open>
  \<^verbatim>\<open>re.sub(r"[^A-Za-z0-9._-]", "_", s)\<close>: every character outside the class becomes an
  underscore. Both \<^verbatim>\<open>_summarizer_cache_key_parts\<close> and \<^verbatim>\<open>_safe_filename_from_url\<close> use it.
\<close>

definition filename_safe :: "char \<Rightarrow> bool" where
  "filename_safe c = (c \<in> set (upper_letters @ lower_letters @ digit_chars @ ''._-''))"

definition sanitize :: "string \<Rightarrow> string" where
  "sanitize s = map (\<lambda>c. if filename_safe c then c else CHR ''_'') s"

text \<open>
  A Python \<^verbatim>\<open>dict\<close> keeps insertion order; assigning to a key that is present replaces
  the value in place.
\<close>

fun dict_set :: "'k \<Rightarrow> 'v \<Rightarrow> ('k \<times> 'v) list \<Rightarrow> ('k \<times> 'v) list" where
  "dict_set k v [] = [(k, v)]"
| "dict_set k v (p # ps) = (if fst p = k then (k, v) # ps else p # dict_set k v ps)"

section \<open>Data model\<close>

text \<open>The dictionaries of the playlist cache: \<^verbatim>\<open>{'url', 'title', 'duration'}\<close>.\<close>

record video =
  url :: string
  title :: string
  duration :: int

text \<open>The dictionaries \<^verbatim>\<open>_fetch_talk_detail\<close> returns and the schedule cache stores.\<close>

record talk =
  talk_title :: string
  sched_link :: string
  youtube_url :: string
  description :: string
  event_type :: "string option"
  deck_url :: "string option"

text \<open>The result dictionaries; the optional keys are absent when \<open>None\<close>.\<close>

record talk_record =
  index :: nat
  rec_title :: string
  summary :: string
  rec_speakers :: "string option"
  rec_sched_link :: "string option"
  rec_event_type :: "string option"
  rec_deck_url :: "string option"

datatype backend = AnthropicSummarizer | OpenAISummarizer | GeminiSummarizer | OllamaSummarizer

text \<open>
  A summarizer instance: its class and the attributes the pipeline reads. \<open>model\<close> is the
  text \<^verbatim>\<open>str(self.model)\<close> gives; \<open>lock\<close> says whether \<^verbatim>\<open>self._lock\<close> is set.
\<close>

record summarizer =
  kind :: backend
  model :: string
  summary_length :: int
  lock :: bool

section \<open>Cache store\<close>

text \<open>
  The cache is a directory of files. A file that exists either yields its content or
  makes the read raise (\<open>Unreadable\<close>, for instance a corrupt JSON document); a write
  either replaces the file or raises, as \<open>write_fails\<close> tells for each file name. The four
  families of files have distinct directories or name prefixes and distinct payloads, so each
  family is a map of its own, addressed by file name.
\<close>

datatype 'a stored = Unreadable | Content 'a

record disk =
  playlist_files :: "string \<rightharpoonup> video list stored"
  sched_files :: "string \<rightharpoonup> talk list stored"
  subtitle_files :: "string \<rightharpoonup> string stored"
  summary_files :: "string \<rightharpoonup> string stored"
  write_fails :: "string \<Rightarrow> bool"

definition read_file :: "(string \<rightharpoonup> 'a stored) \<Rightarrow> string \<Rightarrow> 'a option" where
  "read_file files path =
     (case files path of
        None \<Rightarrow> None
      | Some Unreadable \<Rightarrow> None
      | Some (Content x) \<Rightarrow> Some x)"

definition class_name :: "backend \<Rightarrow> string" where
  "class_name b =
     (case b of
        AnthropicSummarizer \<Rightarrow> ''AnthropicSummarizer''
      | OpenAISummarizer \<Rightarrow> ''OpenAISummarizer''
      | GeminiSummarizer \<Rightarrow> ''GeminiSummarizer''
      | OllamaSummarizer \<Rightarrow> ''OllamaSummarizer'')"

definition summarizer_cache_key_parts :: "summarizer \<Rightarrow> string" where
  "summarizer_cache_key_parts s =
     (let parts = [class_name (kind s)];
          parts = (if model s \<noteq> [] then parts @ [model s] else parts);
          parts = (if summary_length s \<noteq> 0 then parts @ [str_int (summary_length s)] else parts);
          raw = join ''_'' parts
      in sanitize raw)"

definition get_summary_cache_path :: "string \<Rightarrow> summarizer \<Rightarrow> string" where
  "get_summary_cache_path video_id s =
     ''summary_'' @ video_id @ ''_'' @ summarizer_cache_key_parts s @ ''.txt''"

definition load_summary_cache :: "disk \<Rightarrow> string \<Rightarrow> summarizer \<Rightarrow> string option" where
  "load_summary_cache d video_id s = read_file (summary_files d) (get_summary_cache_path video_id s)"

definition save_summary_cache :: "disk \<Rightarrow> string \<Rightarrow> summarizer \<Rightarrow> string \<Rightarrow> disk" where
  "save_summary_cache d video_id s text =
     (let cache_path = get_summary_cache_path video_id s
      in if write_fails d cache_path then d
         else d\<lparr>summary_files := (summary_files d)(cache_path \<mapsto> Content text)\<rparr>)"




definition empty_disk :: disk where
  "empty_disk = \<lparr>playlist_files = Map.empty, sched_files = Map.empty,
                 subtitle_files = Map.empty, summary_files = Map.empty,
                 write_fails = (\<lambda>_. False)\<rparr>"




section \<open>External collaborators\<close>

text \<open>
  An external call either raises (with the text \<^verbatim>\<open>str(e)\<close> of the exception) or returns.
\<close>

datatype 'a attempt = Raises string | Returns 'a


text \<open>
  An entry of the flat playlist listing; a field is \<open>None\<close> when the key is absent. An
  identifier that is absent or empty is falsy.
\<close>

record playlist_entry =
  entry_id :: "string option"
  entry_title :: "string option"
  entry_duration :: "int option"

text \<open>
  The holes of the prompt: the target length, the title and the transcript prefix
  \<^verbatim>\<open>text[:50000]\<close>; the fixed wording around them plays no part in the pipeline.
\<close>

record prompt =
  prompt_length :: int
  prompt_title :: string
  prompt_transcript :: string

text \<open>
  Everything outside the repository is a parameter: the standard library's URL parsing
  (\<open>urllib\<close>) and MD5, the environment variables (\<open>getenv\<close>), the transcript service (told whether the proxy is used),
  the playlist extraction service (\<open>Returns None\<close>: a listing without \<^verbatim>\<open>'entries'\<close>), the
  schedule listing page (the event links found on it), the detail-page scrape, and the
  model backends. A chat backend is asked with the number of the attempt, so that a retry may
  get another answer; the local server answers with the \<^verbatim>\<open>content\<close> of its message when
  that is a string. \<^verbatim>\<open>parse_qs\<close> maps a key to its non-empty list of values, given as the
  first value and the others.
\<close>

record url_lib =
  url_scheme :: "string \<Rightarrow> string"
  url_netloc :: "string \<Rightarrow> string"
  url_hostname :: "string \<Rightarrow> string option"
  url_path :: "string \<Rightarrow> string"
  url_query :: "string \<Rightarrow> string"
  parse_qs :: "string \<Rightarrow> string \<rightharpoonup> string \<times> string list"

record environ =
  webshare_username :: "string option"
  webshare_password :: "string option"
  anthropic_api_key :: "string option"

record world =
  md5_hexdigest :: "string \<Rightarrow> string"
  urllib :: url_lib
  getenv :: environ
  transcript_fetch :: "bool \<Rightarrow> string \<Rightarrow> string list attempt"
  extract_info :: "string \<Rightarrow> playlist_entry option list option attempt"
  listing_links :: "string \<Rightarrow> string list attempt"
  fetch_talk_detail :: "string \<Rightarrow> talk option"
  chat_call :: "summarizer \<Rightarrow> prompt \<Rightarrow> nat \<Rightarrow> string attempt"
  ollama_post :: "summarizer \<Rightarrow> prompt \<Rightarrow> string option attempt"

definition truthy :: "string option \<Rightarrow> bool" where
  "truthy s = (case s of None \<Rightarrow> False | Some t \<Rightarrow> t \<noteq> [])"

section \<open>Summarizers\<close>

definition error_sentinel :: string where
  "error_sentinel = ''Summary unavailable due to an error.''"

definition rate_limit_sentinel :: string where
  "rate_limit_sentinel = ''Summary unavailable - rate limit exceeded.''"

definition format_sentinel :: string where
  "format_sentinel = ''Summary unavailable: unexpected Ollama response format.''"

definition build_prompt :: "summarizer \<Rightarrow> string \<Rightarrow> string \<Rightarrow> prompt" where
  "build_prompt s text ttl =
     \<lparr>prompt_length = summary_length s, prompt_title = ttl, prompt_transcript = take 50000 text\<rparr>"

definition summarize_anthropic :: "world \<Rightarrow> summarizer \<Rightarrow> string \<Rightarrow> string \<Rightarrow> string" where
  "summarize_anthropic w s text ttl =
     (case chat_call w s (build_prompt s text ttl) 0 of
        Returns reply \<Rightarrow> reply
      | Raises e \<Rightarrow> error_sentinel)"

definition summarize_openai :: "world \<Rightarrow> summarizer \<Rightarrow> string \<Rightarrow> string \<Rightarrow> string" where
  "summarize_openai w s text ttl =
     (case chat_call w s (build_prompt s text ttl) 0 of
        Returns reply \<Rightarrow> reply
      | Raises e \<Rightarrow> error_sentinel)"

text \<open>
  The retry loop of \<^verbatim>\<open>GeminiSummarizer.summarize\<close>. A delay is either the backoff in
  seconds or the number the server suggested, kept as the matched text that \<^verbatim>\<open>float\<close>
  converts. The run records the result, the delays slept and the number of backend calls.
\<close>

datatype delay = Backoff nat | Suggested string

record gemini_run =
  run_text :: string
  run_delays :: "delay list"
  run_calls :: nat

definition max_retries :: nat where
  "max_retries = 3"

definition base_delay :: nat where
  "base_delay = 2"

definition is_rate_limit :: "string \<Rightarrow> bool" where
  "is_rate_limit error_str =
     (contains error_str ''429'' \<or> contains (lower error_str) ''quota''
      \<or> contains (lower error_str) ''rate'')"

text \<open>\<^verbatim>\<open>re.search(r'retry in (\d+\.?\d*)', s)\<close>: the leftmost match, its group 1.\<close>

definition match_number :: "string \<Rightarrow> string option" where
  "match_number s =
     (let ds = takeWhile is_digit s; rest = dropWhile is_digit s
      in if ds = [] then None
         else (case rest of
                 c # r \<Rightarrow> if c = CHR ''.'' then Some (ds @ ''.'' @ takeWhile is_digit r) else Some ds
               | [] \<Rightarrow> Some ds))"

fun search_retry_in :: "string \<Rightarrow> string option" where
  "search_retry_in [] = None"
| "search_retry_in (c # cs) =
     (if starts_with (c # cs) ''retry in '' then
        (case match_number (drop 9 (c # cs)) of
           Some m \<Rightarrow> Some m
         | None \<Rightarrow> search_retry_in cs)
      else search_retry_in cs)"

definition retry_delay :: "string \<Rightarrow> nat \<Rightarrow> delay" where
  "retry_delay error_str attempt =
     (if contains (lower error_str) ''retry in'' then
        (case search_retry_in (lower error_str) of
           Some m \<Rightarrow> Suggested m
         | None \<Rightarrow> Backoff (base_delay * 2 ^ attempt))
      else Backoff (base_delay * 2 ^ attempt))"

fun gemini_attempts :: "(nat \<Rightarrow> string attempt) \<Rightarrow> nat list \<Rightarrow> gemini_run" where
  "gemini_attempts call [] = \<lparr>run_text = rate_limit_sentinel, run_delays = [], run_calls = 0\<rparr>"
| "gemini_attempts call (attempt # rest) =
     (case call attempt of
        Returns reply \<Rightarrow> \<lparr>run_text = reply, run_delays = [], run_calls = 1\<rparr>
      | Raises error_str \<Rightarrow>
          if is_rate_limit error_str \<and> attempt < max_retries - 1 then
            (let r = gemini_attempts call rest
             in r\<lparr>run_delays := retry_delay error_str attempt # run_delays r,
                  run_calls := Suc (run_calls r)\<rparr>)
          else \<lparr>run_text = error_sentinel, run_delays = [], run_calls = 1\<rparr>)"

definition summarize_gemini :: "world \<Rightarrow> summarizer \<Rightarrow> string \<Rightarrow> string \<Rightarrow> gemini_run" where
  "summarize_gemini w s text ttl =
     gemini_attempts (chat_call w s (build_prompt s text ttl)) [0..<max_retries]"

definition is_space :: "char \<Rightarrow> bool" where
  "is_space c = (c \<in> set [CHR '' '', CHR 0x09, CHR 0x0A, CHR 0x0B, CHR 0x0C, CHR 0x0D])"

definition summarize_once_ollama :: "world \<Rightarrow> summarizer \<Rightarrow> string \<Rightarrow> string \<Rightarrow> string" where
  "summarize_once_ollama w s text ttl =
     (case ollama_post w s (build_prompt s text ttl) of
        Returns content \<Rightarrow>
          (case content of
             Some c \<Rightarrow> if \<not> list_all is_space c then c else format_sentinel
           | None \<Rightarrow> format_sentinel)
      | Raises e \<Rightarrow> error_sentinel)"

definition summarize_ollama :: "world \<Rightarrow> summarizer \<Rightarrow> string \<Rightarrow> string \<Rightarrow> string" where
  "summarize_ollama w s text ttl =
     (if lock s then summarize_once_ollama w s text ttl else summarize_once_ollama w s text ttl)"

text \<open>\<^verbatim>\<open>summarizer.summarize(text, title)\<close>, dispatched on the class of the instance.\<close>

definition summarize :: "world \<Rightarrow> summarizer \<Rightarrow> string \<Rightarrow> string \<Rightarrow> string" where
  "summarize w s text ttl =
     (case kind s of
        AnthropicSummarizer \<Rightarrow> summarize_anthropic w s text ttl
      | OpenAISummarizer \<Rightarrow> summarize_openai w s text ttl
      | GeminiSummarizer \<Rightarrow> run_text (summarize_gemini w s text ttl)
      | OllamaSummarizer \<Rightarrow> summarize_ollama w s text ttl)"


section \<open>Transcripts and single videos\<close>



text \<open>
  The part both orchestrators share: the summary of one talk from the summary cache or the
  summarizer, and the cache after it.
\<close>

definition cached_or_new_summary ::
  "world \<Rightarrow> disk \<Rightarrow> summarizer \<Rightarrow> bool \<Rightarrow> string \<Rightarrow> string \<Rightarrow> string option \<Rightarrow> string \<times> disk" where
  "cached_or_new_summary w d s use_summary_cache video_id ttl subtitles =
     (case (if use_summary_cache then load_summary_cache d video_id s else None) of
        Some cached \<Rightarrow> (cached, d)
      | None \<Rightarrow>
          if truthy subtitles then
            (let new = summarize w s (the subtitles) ttl
             in (new, save_summary_cache d video_id s new))
          else ([], d))"


section \<open>Playlist orchestrator\<close>

text \<open>The items phase 1 prepares.\<close>

record prepared =
  item_index :: nat
  item_video_url :: string
  item_indexed_url :: string
  item_title :: string
  item_duration :: int
  item_video_id :: string
  item_subtitles :: string







text \<open>Phase 2, the loop over the prepared items, filling the output dictionary.\<close>

fun phase2 ::
  "world \<Rightarrow> summarizer \<Rightarrow> bool \<Rightarrow> prepared list \<Rightarrow> (string \<times> talk_record) list \<Rightarrow> disk
     \<Rightarrow> (string \<times> talk_record) list \<times> disk" where
  "phase2 w s use_summary_cache [] output d = (output, d)"
| "phase2 w s use_summary_cache (item # items) output d =
     (case cached_or_new_summary w d s use_summary_cache (item_video_id item) (item_title item)
             (Some (item_subtitles item)) of
        (text, d1) \<Rightarrow>
          phase2 w s use_summary_cache items
            (dict_set (item_indexed_url item)
               \<lparr>index = item_index item, rec_title = item_title item, summary = text,
                rec_speakers = None, rec_sched_link = None,
                rec_event_type = None, rec_deck_url = None\<rparr> output) d1)"


section \<open>Schedule orchestrator\<close>

definition safe_filename_from_url :: "world \<Rightarrow> string \<Rightarrow> string" where
  "safe_filename_from_url w u =
     (let base = url_scheme (urllib w) u @ ''://'' @ url_netloc (urllib w) u @ url_path (urllib w) u;
          base = (if url_query (urllib w) u \<noteq> [] then base @ ''?'' @ url_query (urllib w) u else base)
      in sanitize base)"

definition get_sched_cache_path :: "world \<Rightarrow> string \<Rightarrow> string" where
  "get_sched_cache_path w sched_url = ''sched_'' @ safe_filename_from_url w sched_url @ ''.json''"


definition save_sched_cache :: "world \<Rightarrow> disk \<Rightarrow> string \<Rightarrow> talk list \<Rightarrow> disk" where
  "save_sched_cache w d sched_url talks =
     (let cache_path = get_sched_cache_path w sched_url
      in if write_fails d cache_path then d
         else d\<lparr>sched_files := (sched_files d)(cache_path \<mapsto> Content talks)\<rparr>)"













section \<open>Example inputs\<close>

text \<open>Two instances of the local-server summarizer that differ in the model only.\<close>

definition ollama_colon :: summarizer where
  "ollama_colon = \<lparr>kind = OllamaSummarizer, model = ''llama3:8b'', summary_length = 800, lock = True\<rparr>"

definition ollama_underscore :: summarizer where
  "ollama_underscore = \<lparr>kind = OllamaSummarizer, model = ''llama3_8b'', summary_length = 800, lock = True\<rparr>"

definition claude_haiku :: summarizer where
  "claude_haiku = \<lparr>kind = AnthropicSummarizer, model = ''claude-3-5-haiku-20241022'',
                    summary_length = 800, lock = False\<rparr>"

definition gemini_flash :: summarizer where
  "gemini_flash = \<lparr>kind = GeminiSummarizer, model = ''gemini-2.0-flash-exp'',
                    summary_length = 800, lock = False\<rparr>"

text \<open>A schedule of two talks and a playlist of three videos, the second one a short clip.\<close>

definition talk_a :: talk where
  "talk_a = \<lparr>talk_title = ''Keynote - Ada'', sched_link = ''https://ev.sched.com/event/1'',
              youtube_url = ''https://www.youtube.com/watch?v=aaa'', description = ''Welcome.'',
              event_type = Some ''Keynote'', deck_url = None\<rparr>"

definition talk_b :: talk where
  "talk_b = \<lparr>talk_title = ''Caching - Bob'', sched_link = ''https://ev.sched.com/event/2'',
              youtube_url = ''https://www.youtube.com/watch?v=bbb'', description = ''On caches.'',
              event_type = None, deck_url = Some ''https://ev.sched.com/files/b.pdf''\<rparr>"

definition entry_a :: playlist_entry where
  "entry_a = \<lparr>entry_id = Some ''aaa'', entry_title = Some ''Keynote'', entry_duration = Some 1800\<rparr>"

definition entry_clip :: playlist_entry where
  "entry_clip = \<lparr>entry_id = Some ''ccc'', entry_title = Some ''Teaser'', entry_duration = Some 60\<rparr>"

definition entry_live :: playlist_entry where
  "entry_live = \<lparr>entry_id = Some ''bbb'', entry_title = Some ''Caching'', entry_duration = None\<rparr>"

definition sched_url :: string where
  "sched_url = ''https://ev.sched.com/list/descriptions''"


text \<open>
  Worlds for the examples: URL parsing that is right on the URLs above, a transcript for
  the first video only, and the two backends as given. In \<open>example_world\<close> they answer.
\<close>

definition example_urllib :: url_lib where
  "example_urllib =
     \<lparr>url_scheme = (\<lambda>u. takeWhile (\<lambda>c. c \<noteq> CHR '':'') u),
      url_netloc = (\<lambda>u. takeWhile (\<lambda>c. c \<noteq> CHR ''/'') (drop 8 u)),
      url_hostname = (\<lambda>u. Some (takeWhile (\<lambda>c. c \<noteq> CHR ''/'') (drop 8 u))),
      url_path = (\<lambda>u. takeWhile (\<lambda>c. c \<noteq> CHR ''?'') (dropWhile (\<lambda>c. c \<noteq> CHR ''/'') (drop 8 u))),
      url_query = (\<lambda>u. drop 1 (dropWhile (\<lambda>c. c \<noteq> CHR ''?'') u)),
      parse_qs = (\<lambda>q k. if starts_with q (k @ ''='') then Some (drop (Suc (length k)) q, []) else None)\<rparr>"

definition world_with ::
  "(summarizer \<Rightarrow> prompt \<Rightarrow> nat \<Rightarrow> string attempt) \<Rightarrow> (summarizer \<Rightarrow> prompt \<Rightarrow> string option attempt)
     \<Rightarrow> world" where
  "world_with chat post =
     \<lparr>md5_hexdigest = sanitize,
      urllib = example_urllib,
      getenv = \<lparr>webshare_username = None, webshare_password = None,
                anthropic_api_key = Some ''sk-example''\<rparr>,
      transcript_fetch = (\<lambda>with_proxy video_id.
         if video_id = ''aaa'' then Returns [''welcome'', ''to'', ''the'', ''keynote'']
         else Raises ''TranscriptsDisabled''),
      extract_info = (\<lambda>u. Returns (Some [Some entry_a, Some entry_clip, None, Some entry_live])),
      listing_links = (\<lambda>u. Returns [''https://ev.sched.com/event/1'', ''https://ev.sched.com/event/2'']),
      fetch_talk_detail = (\<lambda>link.
         if link = ''https://ev.sched.com/event/1'' then Some talk_a
         else if link = ''https://ev.sched.com/event/2'' then Some talk_b
         else None),
      chat_call = chat,
      ollama_post = post\<rparr>"

definition example_world :: world where
  "example_world =
     world_with (\<lambda>s p n. Returns (''About '' @ prompt_title p))
       (\<lambda>s p. Returns (Some (''About '' @ prompt_title p)))"

text \<open>The same world with backends that always fail, and with one that is throttled twice.\<close>

definition failing_world :: world where
  "failing_world =
     world_with (\<lambda>s p n. Raises ''503 Service Unavailable'') (\<lambda>s p. Raises ''connection refused'')"


text \<open>Two prepared items: one with a transcript, one without.\<close>

definition item_keynote :: prepared where
  "item_keynote =
     \<lparr>item_index = 1, item_video_url = ''https://www.youtube.com/watch?v=aaa'',
      item_indexed_url = ''https://www.youtube.com/watch?v=aaa&list=PL1&index=1'',
      item_title = ''Keynote'', item_duration = 1800, item_video_id = ''aaa'',
      item_subtitles = ''welcome to the keynote''\<rparr>"

definition item_caching :: prepared where
  "item_caching =
     \<lparr>item_index = 3, item_video_url = ''https://www.youtube.com/watch?v=bbb'',
      item_indexed_url = ''https://www.youtube.com/watch?v=bbb&list=PL1&index=3'',
      item_title = ''Caching'', item_duration = 0, item_video_id = ''bbb'',
      item_subtitles = []\<rparr>"


definition stale_sched_disk :: disk where
  "stale_sched_disk = save_sched_cache example_world empty_disk sched_url [talk_a]"

section \<open>Summary cache keys\<close>

lemma read_file_upd [simp]: "read_file (files(p \<mapsto> Content x)) p = Some x"
  by (simp add: read_file_def)

lemma summary_cache_round_trip:
  "\<not> write_fails d (get_summary_cache_path video_id s) \<Longrightarrow>
     load_summary_cache (save_summary_cache d video_id s text) video_id s = Some text"
  by (simp add: load_summary_cache_def save_summary_cache_def Let_def)

lemma key_colon: "summarizer_cache_key_parts ollama_colon = ''OllamaSummarizer_llama3_8b_800''"
  by code_simp

lemma key_underscore: "summarizer_cache_key_parts ollama_underscore = ''OllamaSummarizer_llama3_8b_800''"
  by code_simp

text \<open>
  C1. Saving a summary and loading it for the same talk and summarizer gives the payload
  back (\<open>summary_cache_round_trip\<close>, when the write succeeds). But the keys of two
  summarizers with different models can collide: the sanitizer maps the colon of
  \<^verbatim>\<open>llama3:8b\<close> to the underscore of \<^verbatim>\<open>llama3_8b\<close>, so a summary saved under the first
  model is a cache hit under the second.
\<close>

theorem summary_cache_keys_collide:
  "model ollama_colon \<noteq> model ollama_underscore \<and>
   load_summary_cache
     (save_summary_cache empty_disk ''dQw4w9WgXcQ'' ollama_colon ''Summary from llama3:8b'')
     ''dQw4w9WgXcQ'' ollama_underscore = Some ''Summary from llama3:8b''"
proof
  show "model ollama_colon \<noteq> model ollama_underscore"
    by (simp add: ollama_colon_def ollama_underscore_def)
  show "load_summary_cache
     (save_summary_cache empty_disk ''dQw4w9WgXcQ'' ollama_colon ''Summary from llama3:8b'')
     ''dQw4w9WgXcQ'' ollama_underscore = Some ''Summary from llama3:8b''"
    by (simp add: load_summary_cache_def save_summary_cache_def get_summary_cache_path_def
        key_colon key_underscore empty_disk_def read_file_def)
qed

section \<open>Limits\<close>






section \<open>Transcript fetcher\<close>



section \<open>Summarizer failures\<close>

lemma upt_max_retries: "[0..<max_retries] = [0, Suc 0, Suc (Suc 0)]"
  by (simp add: max_retries_def upt_rec numeral_3_eq_3)

lemma gemini_all_raise:
  assumes "\<forall>n. \<exists>e. call n = Raises e"
  shows "run_text (gemini_attempts call [0, Suc 0, Suc (Suc 0)]) = error_sentinel"
proof -
  obtain e0 e1 e2 where "call 0 = Raises e0" "call (Suc 0) = Raises e1" "call (Suc (Suc 0)) = Raises e2"
    using assms by metis
  then show ?thesis
    by (simp add: max_retries_def Let_def)
qed

lemma summarize_raises:
  assumes "kind s = OllamaSummarizer \<longrightarrow> (\<exists>e. ollama_post w s (build_prompt s text ttl) = Raises e)"
    and "kind s \<noteq> OllamaSummarizer \<longrightarrow> (\<forall>n. \<exists>e. chat_call w s (build_prompt s text ttl) n = Raises e)"
  shows "summarize w s text ttl = error_sentinel"
proof (cases "kind s")
  case AnthropicSummarizer
  then obtain e where "chat_call w s (build_prompt s text ttl) 0 = Raises e"
    using assms(2) by auto
  with AnthropicSummarizer show ?thesis
    by (simp add: summarize_def summarize_anthropic_def)
next
  case OpenAISummarizer
  then obtain e where "chat_call w s (build_prompt s text ttl) 0 = Raises e"
    using assms(2) by auto
  with OpenAISummarizer show ?thesis
    by (simp add: summarize_def summarize_openai_def)
next
  case GeminiSummarizer
  then have "\<forall>n. \<exists>e. chat_call w s (build_prompt s text ttl) n = Raises e"
    using assms(2) by auto
  from gemini_all_raise [OF this] GeminiSummarizer show ?thesis
    by (simp add: summarize_def summarize_gemini_def upt_max_retries)
next
  case OllamaSummarizer
  then obtain e where "ollama_post w s (build_prompt s text ttl) = Raises e"
    using assms(1) by auto
  with OllamaSummarizer show ?thesis
    by (simp add: summarize_def summarize_ollama_def summarize_once_ollama_def)
qed

lemma dict_set_keys: "fst ` set (dict_set k v al) = insert k (fst ` set al)"
  by (induction al) auto

lemma phase2_keys:
  "fst ` set (fst (phase2 w s usc items out d)) = fst ` set out \<union> item_indexed_url ` set items"
  by (induction items arbitrary: out d) (auto simp add: dict_set_keys split: prod.splits)

text \<open>
  C5. When the backend call of a summarizer raises (for the retrying variant: on every
  attempt), \<open>summarize\<close> returns the sentinel \<open>error_sentinel\<close>. In phase 2 the failed talk
  gets a record whose summary is the sentinel, the loop goes on with the talks that follow,
  and the output has a record for every prepared talk.
\<close>

theorem summarizer_failure_is_contained:
  assumes "kind s = OllamaSummarizer \<longrightarrow> (\<exists>e. ollama_post w s (build_prompt s text ttl) = Raises e)"
    and "kind s \<noteq> OllamaSummarizer \<longrightarrow> (\<forall>n. \<exists>e. chat_call w s (build_prompt s text ttl) n = Raises e)"
    and "text \<noteq> []" and "item_subtitles item = text" and "item_title item = ttl"
  shows "summarize w s text ttl = error_sentinel
    \<and> phase2 w s False (item # items) out d =
        phase2 w s False items
          (dict_set (item_indexed_url item)
             \<lparr>index = item_index item, rec_title = ttl, summary = error_sentinel,
              rec_speakers = None, rec_sched_link = None, rec_event_type = None,
              rec_deck_url = None\<rparr> out)
          (save_summary_cache d (item_video_id item) s error_sentinel)
    \<and> fst ` set (fst (phase2 w s False (item # items) out d)) =
        fst ` set out \<union> item_indexed_url ` set (item # items)"
proof -
  have a: "summarize w s text ttl = error_sentinel"
    using assms(1,2) by (rule summarize_raises)
  have b: "cached_or_new_summary w d s False (item_video_id item) ttl (Some text) =
           (error_sentinel, save_summary_cache d (item_video_id item) s error_sentinel)"
    using assms(3) a by (simp add: cached_or_new_summary_def truthy_def)
  show ?thesis
    using a b assms(4,5) by (simp only: phase2_keys) simp
qed

theorem summarizer_failure_witness:
  "kind gemini_flash \<noteq> OllamaSummarizer
   \<and> (\<forall>n. chat_call failing_world gemini_flash
              (build_prompt gemini_flash ''welcome to the keynote'' ''Keynote'') n
            = Raises ''503 Service Unavailable'')
   \<and> summarize failing_world gemini_flash ''welcome to the keynote'' ''Keynote''
       = ''Summary unavailable due to an error.''
   \<and> map (\<lambda>kr. (fst kr, summary (snd kr)))
        (fst (phase2 failing_world gemini_flash False [item_keynote, item_caching] [] empty_disk))
       = [(''https://www.youtube.com/watch?v=aaa&list=PL1&index=1'',
           ''Summary unavailable due to an error.''),
          (''https://www.youtube.com/watch?v=bbb&list=PL1&index=3'', [])]"
proof -
  have k: "kind gemini_flash \<noteq> OllamaSummarizer"
    by (simp add: gemini_flash_def)
  have r: "\<forall>n. chat_call failing_world gemini_flash
              (build_prompt gemini_flash ''welcome to the keynote'' ''Keynote'') n
            = Raises ''503 Service Unavailable''"
    by (simp add: failing_world_def world_with_def)
  have h1: "kind gemini_flash = OllamaSummarizer \<longrightarrow>
      (\<exists>e. ollama_post failing_world gemini_flash
              (build_prompt gemini_flash ''welcome to the keynote'' ''Keynote'') = Raises e)"
    using k by simp
  have h2: "kind gemini_flash \<noteq> OllamaSummarizer \<longrightarrow>
      (\<forall>n. \<exists>e. chat_call failing_world gemini_flash
              (build_prompt gemini_flash ''welcome to the keynote'' ''Keynote'') n = Raises e)"
    using r by simp
  have h3: "''welcome to the keynote'' \<noteq> []" by simp
  have h4: "item_subtitles item_keynote = ''welcome to the keynote''"
    by (simp add: item_keynote_def)
  have h5: "item_title item_keynote = ''Keynote''"
    by (simp add: item_keynote_def)
  note t = summarizer_failure_is_contained [OF h1 h2 h3 h4 h5, of "[item_caching]" "[]" empty_disk]
  have a: "summarize failing_world gemini_flash ''welcome to the keynote'' ''Keynote''
       = ''Summary unavailable due to an error.''"
    using t [THEN conjunct1] by (simp add: error_sentinel_def)
  have b: "map (\<lambda>kr. (fst kr, summary (snd kr)))
        (fst (phase2 failing_world gemini_flash False [item_keynote, item_caching] [] empty_disk))
       = [(''https://www.youtube.com/watch?v=aaa&list=PL1&index=1'',
           ''Summary unavailable due to an error.''),
          (''https://www.youtube.com/watch?v=bbb&list=PL1&index=3'', [])]"
    unfolding t [THEN conjunct2, THEN conjunct1]
    by (simp add: cached_or_new_summary_def truthy_def item_keynote_def item_caching_def
        error_sentinel_def)
  show ?thesis
    using k r a b by simp
qed

section \<open>Retry with backoff\<close>








end
